theory Spec2Isabelle
  imports Complex_Main
begin

section \<open>Python values shared by the modules\<close>

text \<open>
  The package is Python on top of numpy, scikit-image and trimesh. A raised exception is
  the \<open>Inl\<close> of a sum; the exception classes are the built-in ones that the modelled paths
  can raise. Python's float and numpy's float64 are modelled by \<^typ>\<open>real\<close>: arithmetic
  is exact, rounding is not represented.
\<close>

datatype error =
  ImportError | TypeError | ValueError | ZeroDivisionError | IndexError | RuntimeError

definition and_then :: "error + 'a \<Rightarrow> ('a \<Rightarrow> error + 'b) \<Rightarrow> error + 'b" where
  "and_then r f = (case r of Inl e \<Rightarrow> Inl e | Inr v \<Rightarrow> f v)"

type_synonym point = "real \<times> real \<times> real"

subsection \<open>numpy: scalars and arrays with broadcasting\<close>

text \<open>
  A coordinate argument is a float or an array. An array is kept as the list of its
  elements in C order; the three arrays of a meshgrid have the same shape, so their
  element lists have the same length. Unary functions act elementwise. A binary
  operation broadcasts a scalar (and a one-element array) against an array, works
  elementwise on arrays of one length, and raises ValueError on any other pair.
\<close>

datatype ndarray = Scalar real | Array "real list"

fun np_unary :: "(real \<Rightarrow> real) \<Rightarrow> ndarray \<Rightarrow> ndarray" where
  "np_unary f (Scalar a) = Scalar (f a)"
| "np_unary f (Array as) = Array (map f as)"

fun np_binary :: "(real \<Rightarrow> real \<Rightarrow> real) \<Rightarrow> ndarray \<Rightarrow> ndarray \<Rightarrow> error + ndarray" where
  "np_binary f (Scalar a) (Scalar b) = Inr (Scalar (f a b))"
| "np_binary f (Scalar a) (Array bs) = Inr (Array (map (f a) bs))"
| "np_binary f (Array as) (Scalar b) = Inr (Array (map (\<lambda>a. f a b) as))"
| "np_binary f (Array as) (Array bs) =
     (if length as = length bs then Inr (Array (map2 f as bs))
      else if length as = 1 then Inr (Array (map (f (hd as)) bs))
      else if length bs = 1 then Inr (Array (map (\<lambda>a. f a (hd bs)) as))
      else Inl ValueError)"

definition np_sin :: "ndarray \<Rightarrow> ndarray" where
  "np_sin = np_unary sin"

definition np_cos :: "ndarray \<Rightarrow> ndarray" where
  "np_cos = np_unary cos"

definition np_abs :: "ndarray \<Rightarrow> ndarray" where
  "np_abs = np_unary abs"

definition np_multiply :: "ndarray \<Rightarrow> ndarray \<Rightarrow> error + ndarray" where
  "np_multiply = np_binary (*)"

definition np_add :: "ndarray \<Rightarrow> ndarray \<Rightarrow> error + ndarray" where
  "np_add = np_binary (+)"

text \<open>An array or float combined with a Python float: always defined.\<close>

definition times_float :: "ndarray \<Rightarrow> real \<Rightarrow> ndarray" where
  "times_float x s = np_unary (\<lambda>v. v * s) x"

definition plus_float :: "ndarray \<Rightarrow> real \<Rightarrow> ndarray" where
  "plus_float x s = np_unary (\<lambda>v. v + s) x"

definition minus_float :: "ndarray \<Rightarrow> real \<Rightarrow> ndarray" where
  "minus_float x s = np_unary (\<lambda>v. v - s) x"

section \<open>core/fields.py: ScalarField\<close>

text \<open>
  \<open>ScalarField\<close> is an abstract class with the attributes \<open>scale\<close> and \<open>offset\<close> and
  the abstract method \<open>evaluate\<close>; a subclass supplies \<open>evaluate\<close>, which is arbitrary
  Python and may raise.
\<close>

record ScalarField =
  scale :: real
  offset :: point
  evaluate :: "ndarray \<Rightarrow> ndarray \<Rightarrow> ndarray \<Rightarrow> error + ndarray"

text \<open>\<open>ScalarField.__call__\<close>.\<close>

definition ScalarField_call ::
  "ScalarField \<Rightarrow> ndarray \<Rightarrow> ndarray \<Rightarrow> ndarray \<Rightarrow> error + ndarray" where
  "ScalarField_call self x y z =
     (let x_scaled = plus_float (times_float x (scale self)) (fst (offset self));
          y_scaled = plus_float (times_float y (scale self)) (fst (snd (offset self)));
          z_scaled = plus_float (times_float z (scale self)) (snd (snd (offset self)))
      in evaluate self x_scaled y_scaled z_scaled)"

section \<open>core/tpms.py: Gyroid and SchwarzP\<close>

text \<open>
  \<open>Gyroid.evaluate\<close> and \<open>SchwarzP.evaluate\<close>; the first argument is the attribute
  \<open>self.thickness\<close>. The sums associate to the left, as Python evaluates them.
\<close>

definition Gyroid_evaluate :: "real \<Rightarrow> ndarray \<Rightarrow> ndarray \<Rightarrow> ndarray \<Rightarrow> error + ndarray" where
  "Gyroid_evaluate thickness x y z =
     and_then (np_multiply (np_sin x) (np_cos y)) (\<lambda>a.
     and_then (np_multiply (np_sin y) (np_cos z)) (\<lambda>b.
     and_then (np_add a b) (\<lambda>ab.
     and_then (np_multiply (np_sin z) (np_cos x)) (\<lambda>c.
     and_then (np_add ab c) (\<lambda>v.
     Inr (if thickness > 0 then minus_float (np_abs v) thickness else v))))))"

definition SchwarzP_evaluate :: "real \<Rightarrow> ndarray \<Rightarrow> ndarray \<Rightarrow> ndarray \<Rightarrow> error + ndarray" where
  "SchwarzP_evaluate thickness x y z =
     and_then (np_add (np_cos x) (np_cos y)) (\<lambda>xy.
     and_then (np_add xy (np_cos z)) (\<lambda>v.
     Inr (if thickness > 0 then minus_float (np_abs v) thickness else v)))"

text \<open>
  The constructors \<open>Gyroid(scale=1.0, thickness=0.0)\<close> and
  \<open>SchwarzP(scale=1.0, thickness=0.0)\<close>: both pass only \<open>scale\<close> to the base class, so
  the offset is the default \<open>(0.0, 0.0, 0.0)\<close>.
\<close>

definition Gyroid :: "real \<Rightarrow> real \<Rightarrow> ScalarField" where
  "Gyroid scale' thickness =
     \<lparr>scale = scale', offset = (0, 0, 0), evaluate = Gyroid_evaluate thickness\<rparr>"

definition SchwarzP :: "real \<Rightarrow> real \<Rightarrow> ScalarField" where
  "SchwarzP scale' thickness =
     \<lparr>scale = scale', offset = (0, 0, 0), evaluate = SchwarzP_evaluate thickness\<rparr>"

section \<open>trimesh: the mesh object\<close>

text \<open>
  \<open>trimesh.Trimesh\<close> is an external library class. Of a mesh, the package reads the
  vertex and face arrays and the derived properties \<open>bounds\<close>, \<open>area\<close>, \<open>volume\<close>,
  \<open>edges\<close>, \<open>is_watertight\<close> and \<open>is_volume\<close>. They are modelled as the library documents
  and computes them, on a mesh whose face indices are in range (\<open>mesh_ok\<close>).
\<close>

type_synonym face = "nat \<times> nat \<times> nat"

record Trimesh =
  vertices :: "point list"
  faces :: "face list"
  vertex_normals :: "point list option"

text \<open>\<open>trimesh.Trimesh()\<close>, the mesh with no data.\<close>

definition Trimesh_empty :: Trimesh where
  "Trimesh_empty = \<lparr>vertices = [], faces = [], vertex_normals = None\<rparr>"

definition face_indices :: "Trimesh \<Rightarrow> nat list" where
  "face_indices m = concat (map (\<lambda>(a, b, c). [a, b, c]) (faces m))"

definition mesh_ok :: "Trimesh \<Rightarrow> bool" where
  "mesh_ok m = list_all (\<lambda>i. i < length (vertices m)) (face_indices m)"

fun vsub :: "point \<Rightarrow> point \<Rightarrow> point" where
  "vsub (a1, a2, a3) (b1, b2, b3) = (a1 - b1, a2 - b2, a3 - b3)"

fun dot :: "point \<Rightarrow> point \<Rightarrow> real" where
  "dot (a1, a2, a3) (b1, b2, b3) = a1 * b1 + a2 * b2 + a3 * b3"

fun cross :: "point \<Rightarrow> point \<Rightarrow> point" where
  "cross (a1, a2, a3) (b1, b2, b3) = (a2 * b3 - a3 * b2, a3 * b1 - a1 * b3, a1 * b2 - a2 * b1)"

definition triangles :: "Trimesh \<Rightarrow> (point \<times> point \<times> point) list" where
  "triangles m = map (\<lambda>(a, b, c). (vertices m ! a, vertices m ! b, vertices m ! c)) (faces m)"

text \<open>\<open>mesh.area\<close>: the summed area of the triangles, half the norm of the edge cross product.\<close>

definition mesh_area :: "Trimesh \<Rightarrow> real" where
  "mesh_area m =
     sum_list (map (\<lambda>(v0, v1, v2).
        sqrt (dot (cross (vsub v1 v0) (vsub v2 v0)) (cross (vsub v1 v0) (vsub v2 v0))) / 2)
      (triangles m))"

text \<open>
  Modelled from the spec: \<open>mesh.volume\<close> is trimesh's surface integral for the enclosed
  volume (trimesh is not among the sources); it is written here as the spec's
  \<open>V = (1/6) \<Sigma> v0 \<sqdot> (v1 \<times> v2)\<close> over the faces. The value is signed: a mesh whose faces
  all point inwards has a negative volume.
\<close>

definition mesh_volume :: "Trimesh \<Rightarrow> real" where
  "mesh_volume m = sum_list (map (\<lambda>(v0, v1, v2). dot v0 (cross v1 v2)) (triangles m)) / 6"

text \<open>\<open>mesh.edges\<close>: three directed edges per face; \<open>edges_sorted\<close> forgets the direction.\<close>

definition mesh_edges :: "Trimesh \<Rightarrow> (nat \<times> nat) list" where
  "mesh_edges m = concat (map (\<lambda>(a, b, c). [(a, b), (b, c), (c, a)]) (faces m))"

definition edges_sorted :: "Trimesh \<Rightarrow> (nat \<times> nat) list" where
  "edges_sorted m = map (\<lambda>(a, b). (min a b, max a b)) (mesh_edges m)"

definition mesh_is_empty :: "Trimesh \<Rightarrow> bool" where
  "mesh_is_empty m = (vertices m = [])"

text \<open>
  \<open>mesh.is_watertight\<close>: false on the empty mesh; otherwise every undirected edge belongs
  to exactly two faces. \<open>mesh.is_winding_consistent\<close>: false on the empty mesh; otherwise the
  two faces of every such edge run through it in opposite directions.
\<close>

definition mesh_is_watertight :: "Trimesh \<Rightarrow> bool" where
  "mesh_is_watertight m =
     (if mesh_is_empty m then False
      else list_all (\<lambda>e. count_list (edges_sorted m) e = 2) (edges_sorted m))"

definition mesh_is_winding_consistent :: "Trimesh \<Rightarrow> bool" where
  "mesh_is_winding_consistent m =
     (if mesh_is_empty m then False
      else list_all (\<lambda>(a, b).
             if count_list (edges_sorted m) (min a b, max a b) = 2
             then (b, a) \<in> set (mesh_edges m) else True)
           (mesh_edges m))"

text \<open>
  \<open>mesh.is_volume\<close>: watertight, consistently wound, a finite centre of mass (always so
  over the reals) and a positive volume, which is trimesh's test for outward normals.
\<close>

definition mesh_is_volume :: "Trimesh \<Rightarrow> bool" where
  "mesh_is_volume m =
     (mesh_is_watertight m \<and> mesh_is_winding_consistent m \<and> 0 < mesh_volume m)"

text \<open>
  \<open>mesh.bounds\<close>: the componentwise minimum and maximum over the vertices that a face
  references, and \<open>None\<close> when there is no such vertex, as on the empty mesh.
\<close>

definition referenced_vertices :: "Trimesh \<Rightarrow> bool list" where
  "referenced_vertices m = map (\<lambda>i. i \<in> set (face_indices m)) [0..<length (vertices m)]"

definition amin :: "real list \<Rightarrow> real" where
  "amin xs = fold min xs (hd xs)"

definition amax :: "real list \<Rightarrow> real" where
  "amax xs = fold max xs (hd xs)"

definition mesh_bounds :: "Trimesh \<Rightarrow> (point \<times> point) option" where
  "mesh_bounds m =
     (let in_mesh = map fst (filter snd (zip (vertices m) (referenced_vertices m)))
      in if in_mesh = [] then None
         else Some ((amin (map fst in_mesh), amin (map (fst \<circ> snd) in_mesh),
                     amin (map (snd \<circ> snd) in_mesh)),
                    (amax (map fst in_mesh), amax (map (fst \<circ> snd) in_mesh),
                     amax (map (snd \<circ> snd) in_mesh))))"

section \<open>geometry/industrial.py\<close>

text \<open>
  The dictionaries the functions return are records. \<open>calculate_bounding_box\<close> subscripts
  \<open>mesh.bounds\<close>; subscripting \<open>None\<close> raises TypeError.
\<close>

record bounding_box =
  bbox_x :: "real \<times> real"
  bbox_y :: "real \<times> real"
  bbox_z :: "real \<times> real"

record dims =
  width :: real
  height :: real
  depth :: real

record analysis =
  volume :: real
  surface_area :: real
  bbox :: bounding_box
  dimensions :: dims
  is_watertight :: bool
  is_volume :: bool
  vertex_count :: nat
  face_count :: nat
  edge_count :: nat

record material_usage =
  volume_mm3 :: real
  material_volume_mm3 :: real
  mass_g :: real
  density :: real

definition calculate_volume :: "Trimesh \<Rightarrow> real" where
  "calculate_volume mesh = (if \<not> mesh_is_volume mesh then 0 else mesh_volume mesh)"

definition calculate_bounding_box :: "Trimesh \<Rightarrow> error + bounding_box" where
  "calculate_bounding_box mesh =
     (case mesh_bounds mesh of
        None \<Rightarrow> Inl TypeError
      | Some ((x0, y0, z0), (x1, y1, z1)) \<Rightarrow>
          Inr \<lparr>bbox_x = (x0, x1), bbox_y = (y0, y1), bbox_z = (z0, z1)\<rparr>)"

definition calculate_dimensions :: "Trimesh \<Rightarrow> error + dims" where
  "calculate_dimensions mesh =
     and_then (calculate_bounding_box mesh) (\<lambda>b.
       Inr \<lparr>width = snd (bbox_x b) - fst (bbox_x b),
            height = snd (bbox_y b) - fst (bbox_y b),
            depth = snd (bbox_z b) - fst (bbox_z b)\<rparr>)"

definition analyze_geometry :: "Trimesh \<Rightarrow> error + analysis" where
  "analyze_geometry mesh =
     and_then (calculate_bounding_box mesh) (\<lambda>b.
     and_then (calculate_dimensions mesh) (\<lambda>d.
       Inr \<lparr>volume = calculate_volume mesh,
            surface_area = mesh_area mesh,
            bbox = b,
            dimensions = d,
            is_watertight = mesh_is_watertight mesh,
            is_volume = mesh_is_volume mesh,
            vertex_count = length (vertices mesh),
            face_count = length (faces mesh),
            edge_count = length (mesh_edges mesh)\<rparr>))"

text \<open>\<open>wall_thickness\<close> is \<open>Optional[float]\<close>; \<open>None\<close> is the default.\<close>

definition estimate_material_usage :: "Trimesh \<Rightarrow> real \<Rightarrow> real option \<Rightarrow> material_usage" where
  "estimate_material_usage mesh material_density wall_thickness =
     (let volume_mm3' = calculate_volume mesh;
          material_volume_mm3' =
            (case wall_thickness of
               None \<Rightarrow> volume_mm3'
             | Some w \<Rightarrow> if w > 0 then mesh_area mesh * w else volume_mm3');
          volume_cm3 = material_volume_mm3' / 1000;
          mass_g' = volume_cm3 * material_density
      in \<lparr>volume_mm3 = volume_mm3', material_volume_mm3 = material_volume_mm3',
          mass_g = mass_g', density = material_density\<rparr>)"

text \<open>Two meshes of the unit corner tetrahedron: faces wound outwards, and all faces flipped.\<close>

definition tetrahedron :: Trimesh where
  "tetrahedron =
     \<lparr>vertices = [(0, 0, 0), (1, 0, 0), (0, 1, 0), (0, 0, 1)],
      faces = [(0, 2, 1), (0, 1, 3), (0, 3, 2), (1, 2, 3)],
      vertex_normals = None\<rparr>"

definition tetrahedron_inverted :: Trimesh where
  "tetrahedron_inverted =
     \<lparr>vertices = [(0, 0, 0), (1, 0, 0), (0, 1, 0), (0, 0, 1)],
      faces = [(0, 1, 2), (0, 3, 1), (0, 2, 3), (1, 3, 2)],
      vertex_normals = None\<rparr>"

text \<open>
  The box with extents \<open>(ex, ey, ez)\<close> centred at the origin, twelve triangles wound
  outwards, as \<open>trimesh.creation.box\<close> builds it; the package's tests analyse it.
\<close>

definition box_mesh :: "real \<Rightarrow> real \<Rightarrow> real \<Rightarrow> Trimesh" where
  "box_mesh ex ey ez =
     \<lparr>vertices = map (\<lambda>(a, b, c). ((a - 1 / 2) * ex, (b - 1 / 2) * ey, (c - 1 / 2) * ez))
        [(0, 0, 0), (0, 0, 1), (0, 1, 0), (0, 1, 1), (1, 0, 0), (1, 0, 1), (1, 1, 0), (1, 1, 1)],
      faces = [(1, 3, 0), (4, 1, 0), (0, 3, 2), (2, 4, 0), (1, 7, 3), (5, 1, 4),
               (5, 7, 1), (3, 7, 2), (6, 4, 2), (2, 7, 6), (6, 5, 4), (7, 5, 6)],
      vertex_normals = None\<rparr>"

text \<open>An open surface: one triangle.\<close>

definition single_triangle :: Trimesh where
  "single_triangle =
     \<lparr>vertices = [(0, 0, 0), (1, 0, 0), (0, 1, 0)], faces = [(0, 1, 2)], vertex_normals = None\<rparr>"

section \<open>numpy: grids, masks and statistics\<close>

text \<open>
  \<open>np.linspace(start, stop, num)\<close> raises ValueError for a negative \<open>num\<close>; otherwise it
  returns \<open>num\<close> points, \<open>start + i * step\<close> with \<open>step = (stop - start) / (num - 1)\<close>, and
  the single point \<open>start\<close> when \<open>num = 1\<close>.
\<close>

definition linspace :: "real \<Rightarrow> real \<Rightarrow> int \<Rightarrow> error + real list" where
  "linspace start stop num =
     (if num < 0 then Inl ValueError
      else Inr (map (\<lambda>i. if 0 < num - 1
                          then real i * ((stop - start) / real_of_int (num - 1)) + start
                          else real i * (stop - start) + start)
                [0..<nat num]))"

text \<open>
  \<open>np.meshgrid(x, y, z, indexing='ij')\<close>: three arrays of shape
  \<open>(len x, len y, len z)\<close>, here in C order, so that position \<open>(i, j, k)\<close> holds
  \<open>x[i]\<close>, \<open>y[j]\<close> and \<open>z[k]\<close>.
\<close>

type_synonym field_call = "ndarray \<times> ndarray \<times> ndarray"

definition meshgrid :: "real list \<Rightarrow> real list \<Rightarrow> real list \<Rightarrow> field_call" where
  "meshgrid x y z =
     (Array (concat (map (\<lambda>a. concat (map (\<lambda>b. map (\<lambda>c. a) z) y)) x)),
      Array (concat (map (\<lambda>a. concat (map (\<lambda>b. map (\<lambda>c. b) z) y)) x)),
      Array (concat (map (\<lambda>a. concat (map (\<lambda>b. map (\<lambda>c. c) z) y)) x)))"

text \<open>\<open>np.std\<close>: the population standard deviation.\<close>

definition np_mean :: "real list \<Rightarrow> real" where
  "np_mean vs = sum_list vs / real (length vs)"

definition np_std :: "real list \<Rightarrow> real" where
  "np_std vs = sqrt (np_mean (map (\<lambda>v. (v - np_mean vs)\<^sup>2) vs))"

text \<open>
  \<open>X[mask]\<close> for a boolean array as subscript: the elements where it holds; IndexError when
  it does not have the shape of the array.
\<close>

definition boolean_index :: "ndarray \<Rightarrow> bool list \<Rightarrow> error + real list" where
  "boolean_index X msk =
     (case X of
        Scalar a \<Rightarrow> Inl IndexError
      | Array xs \<Rightarrow>
          if length msk = length xs then Inr (map fst (filter snd (zip xs msk)))
          else Inl IndexError)"

section \<open>The libraries behind \<open>generate_mesh\<close>\<close>

text \<open>
  \<open>generate_mesh\<close> calls scikit-image, scipy and trimesh. What these calls return is not
  decided by the package, so they are parameters of the model:
  \<^item> \<open>skimage_importable\<close>: whether \<open>from skimage import measure\<close> succeeds;
  \<^item> \<open>marching_cubes\<close>: \<open>measure.marching_cubes\<close>, given the keyword names of the call,
    the volume with the number of samples per axis, the level, the spacing and the origin;
  \<^item> \<open>Delaunay\<close>: \<open>scipy.spatial.Delaunay\<close>, returning the simplices;
  \<^item> \<open>Trimesh_init\<close>: the constructor \<open>trimesh.Trimesh(vertices, faces, vertex_normals)\<close>,
    which processes (merges) what it is given;
  \<^item> \<open>Trimesh_getitem\<close>: the subscript \<open>mesh[...]\<close>.
\<close>

type_synonym box = "(real \<times> real) \<times> (real \<times> real) \<times> (real \<times> real)"

type_synonym mc_result = "point list \<times> nat list list \<times> point list \<times> real list"

record env =
  skimage_importable :: bool
  marching_cubes ::
    "string list \<Rightarrow> ndarray \<Rightarrow> int \<Rightarrow> real \<Rightarrow> point \<Rightarrow> point \<Rightarrow> error + mc_result"
  Delaunay :: "point list \<Rightarrow> error + nat list list"
  Trimesh_init :: "point list \<Rightarrow> nat list list \<Rightarrow> point list option \<Rightarrow> error + Trimesh"
  Trimesh_getitem :: "Trimesh \<Rightarrow> bool \<Rightarrow> error + Trimesh"

text \<open>
  \<open>mesh.remove_duplicate_faces()\<close> keeps one face of every set of faces with the same
  three vertices; \<open>mesh.remove_unreferenced_vertices()\<close> drops the vertices that no face
  uses and renumbers the faces.
\<close>

fun unique_faces :: "nat list list \<Rightarrow> face list \<Rightarrow> face list" where
  "unique_faces seen [] = []"
| "unique_faces seen ((a, b, c) # fs) =
     (if sort [a, b, c] \<in> set seen then unique_faces seen fs
      else (a, b, c) # unique_faces (sort [a, b, c] # seen) fs)"

definition remove_duplicate_faces :: "Trimesh \<Rightarrow> Trimesh" where
  "remove_duplicate_faces m = m\<lparr>faces := unique_faces [] (faces m)\<rparr>"

definition remove_unreferenced_vertices :: "Trimesh \<Rightarrow> Trimesh" where
  "remove_unreferenced_vertices m =
     (let referenced = referenced_vertices m;
          inverse = (\<lambda>i. length (filter id (take i referenced)))
      in \<lparr>vertices = map fst (filter snd (zip (vertices m) referenced)),
          faces = map (\<lambda>(a, b, c). (inverse a, inverse b, inverse c)) (faces m),
          vertex_normals =
            map_option (\<lambda>ns. map fst (filter snd (zip ns referenced))) (vertex_normals m)\<rparr>)"

section \<open>geometry/marching\_cubes.py\<close>

text \<open>Python's \<open>/\<close> of a float by an int: ZeroDivisionError on a zero divisor.\<close>

definition truediv :: "real \<Rightarrow> int \<Rightarrow> error + real" where
  "truediv a b = (if b = 0 then Inl ZeroDivisionError else Inr (a / real_of_int b))"

text \<open>
  The mask and the stacked points of \<open>_marching_cubes_simple\<close>. When the field returned
  a float instead of an array, \<open>np.std\<close> is 0, the mask is the scalar \<open>False\<close> and the
  result has length 0.
\<close>

definition near_surface_points ::
  "ndarray \<Rightarrow> real \<Rightarrow> field_call \<Rightarrow> error + point list" where
  "near_surface_points field_values iso_value grid =
     (case field_values of
        Scalar v \<Rightarrow> Inr []
      | Array vs \<Rightarrow>
          (let msk = map (\<lambda>v. \<bar>v - iso_value\<bar> < 0.1 * np_std vs) vs
           in and_then (boolean_index (fst grid) msk) (\<lambda>xs.
              and_then (boolean_index (fst (snd grid)) msk) (\<lambda>ys.
              and_then (boolean_index (snd (snd grid)) msk) (\<lambda>zs.
              Inr (zip xs (zip ys zs)))))))"

text \<open>
  The body of the \<open>try\<close> in \<open>_marching_cubes_simple\<close>; the bare \<open>except\<close> around it turns
  every exception into the empty mesh.
\<close>

definition delaunay_mesh :: "env \<Rightarrow> point list \<Rightarrow> error + Trimesh" where
  "delaunay_mesh env points =
     and_then (Delaunay env points) (\<lambda>simplices.
     and_then (Trimesh_init env points simplices None) (\<lambda>mesh.
     Trimesh_getitem env mesh (mesh_area mesh > 1 / 10 ^ 10)))"

text \<open>
  Functions that call the field return the calls made so far, in order, beside their
  result: each call is the triple of coordinate arrays handed to the field.
\<close>

definition marching_cubes_simple ::
  "env \<Rightarrow> ScalarField \<Rightarrow> int \<Rightarrow> real \<Rightarrow> box \<Rightarrow> field_call list \<times> (error + Trimesh)" where
  "marching_cubes_simple env field resolution iso_value bounds =
     (case bounds of ((x_min, x_max), (y_min, y_max), (z_min, z_max)) \<Rightarrow>
      (case linspace x_min x_max resolution of Inl e \<Rightarrow> ([], Inl e) | Inr x \<Rightarrow>
      (case linspace y_min y_max resolution of Inl e \<Rightarrow> ([], Inl e) | Inr y \<Rightarrow>
      (case linspace z_min z_max resolution of Inl e \<Rightarrow> ([], Inl e) | Inr z \<Rightarrow>
      (case ScalarField_call field (fst (meshgrid x y z)) (fst (snd (meshgrid x y z)))
              (snd (snd (meshgrid x y z))) of
         Inl e \<Rightarrow> ([meshgrid x y z], Inl e)
       | Inr field_values \<Rightarrow>
          (case near_surface_points field_values iso_value (meshgrid x y z) of
             Inl e \<Rightarrow> ([meshgrid x y z], Inl e)
           | Inr points \<Rightarrow>
               if length points < 4 then ([meshgrid x y z], Inr Trimesh_empty)
               else (case delaunay_mesh env points of
                       Inl e \<Rightarrow> ([meshgrid x y z], Inr Trimesh_empty)
                     | Inr mesh \<Rightarrow> ([meshgrid x y z], Inr mesh))))))))"

text \<open>
  The body of the \<open>try\<close> in \<open>generate_mesh\<close>: the import, the three spacings, the call of
  \<open>measure.marching_cubes\<close> with the keywords \<open>level\<close>, \<open>spacing\<close> and \<open>origin\<close>, and the
  construction of the mesh.
\<close>

definition skimage_mesh :: "env \<Rightarrow> ndarray \<Rightarrow> int \<Rightarrow> real \<Rightarrow> box \<Rightarrow> error + Trimesh" where
  "skimage_mesh env field_values resolution iso_value bounds =
     (case bounds of ((x_min, x_max), (y_min, y_max), (z_min, z_max)) \<Rightarrow>
      if skimage_importable env then
        and_then (truediv (x_max - x_min) (resolution - 1)) (\<lambda>dx.
        and_then (truediv (y_max - y_min) (resolution - 1)) (\<lambda>dy.
        and_then (truediv (z_max - z_min) (resolution - 1)) (\<lambda>dz.
        and_then (marching_cubes env [''level'', ''spacing'', ''origin''] field_values
                    resolution iso_value (dx, dy, dz) (x_min, y_min, z_min))
          (\<lambda>(vs, fs, normals, values). Trimesh_init env vs fs (Some normals)))))
      else Inl ImportError)"

definition clean_up :: "Trimesh \<Rightarrow> Trimesh" where
  "clean_up mesh = remove_unreferenced_vertices (remove_duplicate_faces mesh)"

text \<open>
  \<open>generate_mesh(field, resolution, iso_value, bounds)\<close>. Only ImportError is caught
  around the scikit-image path; it leads to \<open>_marching_cubes_simple\<close>, which samples the
  field again.
\<close>

definition generate_mesh ::
  "env \<Rightarrow> ScalarField \<Rightarrow> int \<Rightarrow> real \<Rightarrow> box option \<Rightarrow> field_call list \<times> (error + Trimesh)" where
  "generate_mesh env field resolution iso_value bounds =
     (case (case bounds of None \<Rightarrow> ((-5, 5), (-5, 5), (-5, 5)) | Some b \<Rightarrow> b) of
        ((x_min, x_max), (y_min, y_max), (z_min, z_max)) \<Rightarrow>
      (case linspace x_min x_max resolution of Inl e \<Rightarrow> ([], Inl e) | Inr x \<Rightarrow>
      (case linspace y_min y_max resolution of Inl e \<Rightarrow> ([], Inl e) | Inr y \<Rightarrow>
      (case linspace z_min z_max resolution of Inl e \<Rightarrow> ([], Inl e) | Inr z \<Rightarrow>
      (case ScalarField_call field (fst (meshgrid x y z)) (fst (snd (meshgrid x y z)))
              (snd (snd (meshgrid x y z))) of
         Inl e \<Rightarrow> ([meshgrid x y z], Inl e)
       | Inr field_values \<Rightarrow>
          (case skimage_mesh env field_values resolution iso_value
                  ((x_min, x_max), (y_min, y_max), (z_min, z_max)) of
             Inr mesh \<Rightarrow> ([meshgrid x y z], Inr (clean_up mesh))
           | Inl e \<Rightarrow>
               if e = ImportError then
                 (case marching_cubes_simple env field resolution iso_value
                         ((x_min, x_max), (y_min, y_max), (z_min, z_max)) of
                    (calls, Inl e') \<Rightarrow> (meshgrid x y z # calls, Inl e')
                  | (calls, Inr mesh) \<Rightarrow> (meshgrid x y z # calls, Inr (clean_up mesh)))
               else ([meshgrid x y z], Inl e)))))))"

section \<open>The installed libraries\<close>

text \<open>
  \<open>skimage.measure.marching_cubes(volume, level=None, *, spacing, gradient_direction,
  step_size, allow_degenerate, method, mask)\<close> as scikit-image documents it. Python
  raises TypeError for a keyword that is not among the parameters of the function; the
  function raises ValueError for a volume that is not three-dimensional or has fewer
  than two samples on an axis, and for a level outside the range of the volume. For a
  level inside the range the extraction runs; it raises RuntimeError when it finds no
  surface. The parameter names and the extraction, with that failure, are arguments of
  the model (\<open>parameters\<close>, \<open>extract\<close>); \<open>marching_cubes_parameters\<close> are the
  documented names.
\<close>

definition marching_cubes_parameters :: "string list" where
  "marching_cubes_parameters =
     [''volume'', ''level'', ''spacing'', ''gradient_direction'', ''step_size'',
      ''allow_degenerate'', ''method'', ''mask'']"

definition level_in_range :: "real list \<Rightarrow> real \<Rightarrow> bool" where
  "level_in_range vs level = (amin vs \<le> level \<and> level \<le> amax vs)"

definition skimage_marching_cubes ::
  "string list \<Rightarrow> (ndarray \<Rightarrow> int \<Rightarrow> real \<Rightarrow> point \<Rightarrow> error + mc_result) \<Rightarrow>
   string list \<Rightarrow> ndarray \<Rightarrow> int \<Rightarrow> real \<Rightarrow> point \<Rightarrow> point \<Rightarrow> error + mc_result" where
  "skimage_marching_cubes parameters extract keywords vol n level spacing origin =
     (if list_ex (\<lambda>k. k \<notin> set parameters) keywords then Inl TypeError
      else case vol of
             Scalar v \<Rightarrow> Inl ValueError
           | Array vs \<Rightarrow>
               if n < 2 then Inl ValueError
               else if level_in_range vs level then extract vol n level spacing
               else Inl ValueError)"

text \<open>
  The environment with the libraries as installed. \<open>Trimesh\<close> defines no \<open>__getitem__\<close>,
  so a subscript raises TypeError. The parts that are not modelled (the extraction, the
  triangulation and the constructor's processing) are left unspecified.
\<close>

definition installed :: "bool \<Rightarrow> env" where
  "installed with_skimage =
     \<lparr>skimage_importable = with_skimage,
      marching_cubes = skimage_marching_cubes marching_cubes_parameters undefined,
      Delaunay = undefined,
      Trimesh_init = undefined,
      Trimesh_getitem = (\<lambda>mesh key. Inl TypeError)\<rparr>"

text \<open>A field subclass whose \<open>evaluate\<close> is constant: \<open>np.full_like(x, c)\<close>.\<close>

definition constant_field :: "real \<Rightarrow> ScalarField" where
  "constant_field c =
     \<lparr>scale = 1, offset = (0, 0, 0), evaluate = (\<lambda>x y z. Inr (np_unary (\<lambda>v. c) x))\<rparr>"

section \<open>Properties of the fields\<close>

lemma Gyroid_evaluate_Scalar:
  "Gyroid_evaluate t (Scalar x) (Scalar y) (Scalar z) =
     Inr (Scalar (if t > 0 then \<bar>sin x * cos y + sin y * cos z + sin z * cos x\<bar> - t
                  else sin x * cos y + sin y * cos z + sin z * cos x))"
  by (simp add: Gyroid_evaluate_def and_then_def np_multiply_def np_add_def np_sin_def
      np_cos_def np_abs_def minus_float_def)

lemma SchwarzP_evaluate_Scalar:
  "SchwarzP_evaluate t (Scalar x) (Scalar y) (Scalar z) =
     Inr (Scalar (if t > 0 then \<bar>cos x + cos y + cos z\<bar> - t else cos x + cos y + cos z))"
  by (simp add: SchwarzP_evaluate_def and_then_def np_add_def np_cos_def np_abs_def
      minus_float_def)

text \<open>On arrays of one length the Gyroid formula is applied position by position.\<close>

lemma Gyroid_evaluate_Array:
  assumes "length ys = length xs" "length zs = length xs"
  shows "Gyroid_evaluate 0 (Array xs) (Array ys) (Array zs) =
     Inr (Array (map (\<lambda>(x, y, z). sin x * cos y + sin y * cos z + sin z * cos x)
                   (zip xs (zip ys zs))))"
proof -
  have "map2 (+) (map2 (+) (map2 (*) (map sin xs) (map cos ys))
                           (map2 (*) (map sin ys) (map cos zs)))
          (map2 (*) (map sin zs) (map cos xs)) =
        map (\<lambda>(x, y, z). sin x * cos y + sin y * cos z + sin z * cos x) (zip xs (zip ys zs))"
  proof -
    have "length xs = length ys" "length ys = length zs"
      using assms by simp_all
    then show ?thesis
      by (induction xs ys zs rule: list_induct3) auto
  qed
  then show ?thesis
    using assms
    by (simp add: Gyroid_evaluate_def and_then_def np_multiply_def np_add_def np_sin_def
        np_cos_def)
qed

text \<open>
  The thickness branch is the last step of both methods: it acts on the value that
  thickness 0 returns, and an error of the base formula passes through.
\<close>

lemma Gyroid_evaluate_thickness:
  "Gyroid_evaluate t x y z =
     and_then (Gyroid_evaluate 0 x y z)
       (\<lambda>v. Inr (if t > 0 then minus_float (np_abs v) t else v))"
  by (simp add: Gyroid_evaluate_def and_then_def split: sum.splits)

lemma SchwarzP_evaluate_thickness:
  "SchwarzP_evaluate t x y z =
     and_then (SchwarzP_evaluate 0 x y z)
       (\<lambda>v. Inr (if t > 0 then minus_float (np_abs v) t else v))"
  by (simp add: SchwarzP_evaluate_def and_then_def split: sum.splits)

lemma SchwarzP_evaluate_Array:
  assumes "length ys = length xs" "length zs = length xs"
  shows "SchwarzP_evaluate 0 (Array xs) (Array ys) (Array zs) =
     Inr (Array (map (\<lambda>(x, y, z). cos x + cos y + cos z) (zip xs (zip ys zs))))"
proof -
  have "map2 (+) (map2 (+) (map cos xs) (map cos ys)) (map cos zs) =
        map (\<lambda>(x, y, z). cos x + cos y + cos z) (zip xs (zip ys zs))"
  proof -
    have "length xs = length ys" "length ys = length zs"
      using assms by simp_all
    then show ?thesis
      by (induction xs ys zs rule: list_induct3) auto
  qed
  then show ?thesis
    using assms
    by (simp add: SchwarzP_evaluate_def and_then_def np_add_def np_cos_def)
qed

lemma Gyroid_evaluate_Array_thickness:
  assumes "length ys = length xs" "length zs = length xs"
  shows "Gyroid_evaluate t (Array xs) (Array ys) (Array zs) =
     Inr (Array (map (\<lambda>(x, y, z).
                   if t > 0 then \<bar>sin x * cos y + sin y * cos z + sin z * cos x\<bar> - t
                   else sin x * cos y + sin y * cos z + sin z * cos x)
                 (zip xs (zip ys zs))))"
  by (subst Gyroid_evaluate_thickness)
     (simp add: Gyroid_evaluate_Array [OF assms] and_then_def np_abs_def minus_float_def
        o_def split_def)

lemma SchwarzP_evaluate_Array_thickness:
  assumes "length ys = length xs" "length zs = length xs"
  shows "SchwarzP_evaluate t (Array xs) (Array ys) (Array zs) =
     Inr (Array (map (\<lambda>(x, y, z).
                   if t > 0 then \<bar>cos x + cos y + cos z\<bar> - t else cos x + cos y + cos z)
                 (zip xs (zip ys zs))))"
  by (subst SchwarzP_evaluate_thickness)
     (simp add: SchwarzP_evaluate_Array [OF assms] and_then_def np_abs_def minus_float_def
        o_def split_def)

text \<open>The call of a field on the arrays of a grid, as the pipeline makes it.\<close>

lemma Gyroid_call_Array:
  assumes "length ys = length xs" "length zs = length xs"
  shows "ScalarField_call (Gyroid s t) (Array xs) (Array ys) (Array zs) =
     Inr (Array (map (\<lambda>(x, y, z).
                   if t > 0
                   then \<bar>sin (x * s) * cos (y * s) + sin (y * s) * cos (z * s) +
                         sin (z * s) * cos (x * s)\<bar> - t
                   else sin (x * s) * cos (y * s) + sin (y * s) * cos (z * s) +
                        sin (z * s) * cos (x * s))
                 (zip xs (zip ys zs))))"
  using assms
  by (simp add: ScalarField_call_def Gyroid_def times_float_def plus_float_def
      Gyroid_evaluate_Array_thickness zip_map_map o_def split_def)

lemma SchwarzP_call_Array:
  assumes "length ys = length xs" "length zs = length xs"
  shows "ScalarField_call (SchwarzP s t) (Array xs) (Array ys) (Array zs) =
     Inr (Array (map (\<lambda>(x, y, z).
                   if t > 0 then \<bar>cos (x * s) + cos (y * s) + cos (z * s)\<bar> - t
                   else cos (x * s) + cos (y * s) + cos (z * s))
                 (zip xs (zip ys zs))))"
  using assms
  by (simp add: ScalarField_call_def SchwarzP_def times_float_def plus_float_def
      SchwarzP_evaluate_Array_thickness zip_map_map o_def split_def)

text \<open>An array that cannot be broadcast against the others makes \<open>evaluate\<close> raise.\<close>

lemma SchwarzP_evaluate_shape_mismatch:
  "SchwarzP_evaluate 0 (Array [0, 0]) (Array [0, 0, 0]) (Scalar 0) = Inl ValueError"
  by (simp add: SchwarzP_evaluate_def and_then_def np_add_def np_cos_def)

text \<open>
  Claim C5. Calling a field applies the affine transform to each coordinate and hands the
  results to \<open>evaluate\<close>: for float arguments, \<open>field(x, y, z)\<close> is
  \<open>evaluate(x*scale + offset[0], y*scale + offset[1], z*scale + offset[2])\<close>, and for
  coordinate arrays the transform is applied to every element of each array.
\<close>

theorem ScalarField_call_affine:
  "ScalarField_call f (Scalar x) (Scalar y) (Scalar z) =
     evaluate f (Scalar (x * scale f + fst (offset f)))
                (Scalar (y * scale f + fst (snd (offset f))))
                (Scalar (z * scale f + snd (snd (offset f))))
   \<and> ScalarField_call f (Array xs) (Array ys) (Array zs) =
     evaluate f (Array (map (\<lambda>x. x * scale f + fst (offset f)) xs))
                (Array (map (\<lambda>y. y * scale f + fst (snd (offset f))) ys))
                (Array (map (\<lambda>z. z * scale f + snd (snd (offset f))) zs))"
  by (simp add: ScalarField_call_def times_float_def plus_float_def comp_def)

text \<open>
  Claim C6. With thickness 0, \<open>Gyroid.evaluate\<close> returns
  \<open>sin(x)cos(y) + sin(y)cos(z) + sin(z)cos(x)\<close> and \<open>SchwarzP.evaluate\<close> returns
  \<open>cos(x) + cos(y) + cos(z)\<close>: for float coordinates, and position by position for
  coordinate arrays of one length, also when the field is called on such arrays with a
  scale \<open>s\<close>. At the origin, with scale 1, SchwarzP yields 3 and Gyroid yields 0
  (exactly, hence within \<open>1e-10\<close>), both through \<open>evaluate\<close> and through the call.
\<close>

theorem tpms_base_formulas:
  "Gyroid_evaluate 0 (Scalar x) (Scalar y) (Scalar z) =
     Inr (Scalar (sin x * cos y + sin y * cos z + sin z * cos x))
   \<and> SchwarzP_evaluate 0 (Scalar x) (Scalar y) (Scalar z) =
     Inr (Scalar (cos x + cos y + cos z))
   \<and> (length ys = length xs \<and> length zs = length xs \<longrightarrow>
        Gyroid_evaluate 0 (Array xs) (Array ys) (Array zs) =
          Inr (Array (map (\<lambda>(x, y, z). sin x * cos y + sin y * cos z + sin z * cos x)
                        (zip xs (zip ys zs)))) \<and>
        SchwarzP_evaluate 0 (Array xs) (Array ys) (Array zs) =
          Inr (Array (map (\<lambda>(x, y, z). cos x + cos y + cos z) (zip xs (zip ys zs)))) \<and>
        ScalarField_call (Gyroid s 0) (Array xs) (Array ys) (Array zs) =
          Inr (Array (map (\<lambda>(x, y, z). sin (x * s) * cos (y * s) + sin (y * s) * cos (z * s) +
                                        sin (z * s) * cos (x * s))
                        (zip xs (zip ys zs)))) \<and>
        ScalarField_call (SchwarzP s 0) (Array xs) (Array ys) (Array zs) =
          Inr (Array (map (\<lambda>(x, y, z). cos (x * s) + cos (y * s) + cos (z * s))
                        (zip xs (zip ys zs)))))
   \<and> evaluate (SchwarzP 1 0) (Scalar 0) (Scalar 0) (Scalar 0) = Inr (Scalar 3)
   \<and> ScalarField_call (SchwarzP 1 0) (Scalar 0) (Scalar 0) (Scalar 0) = Inr (Scalar 3)
   \<and> evaluate (Gyroid 1 0) (Scalar 0) (Scalar 0) (Scalar 0) = Inr (Scalar 0)
   \<and> ScalarField_call (Gyroid 1 0) (Scalar 0) (Scalar 0) (Scalar 0) = Inr (Scalar 0)"
proof -
  have scalars: "Gyroid_evaluate 0 (Scalar x) (Scalar y) (Scalar z) =
       Inr (Scalar (sin x * cos y + sin y * cos z + sin z * cos x))"
    "SchwarzP_evaluate 0 (Scalar x) (Scalar y) (Scalar z) = Inr (Scalar (cos x + cos y + cos z))"
    by (simp_all add: Gyroid_evaluate_Scalar SchwarzP_evaluate_Scalar)
  have origin: "evaluate (SchwarzP 1 0) (Scalar 0) (Scalar 0) (Scalar 0) = Inr (Scalar 3)"
    "ScalarField_call (SchwarzP 1 0) (Scalar 0) (Scalar 0) (Scalar 0) = Inr (Scalar 3)"
    "evaluate (Gyroid 1 0) (Scalar 0) (Scalar 0) (Scalar 0) = Inr (Scalar 0)"
    "ScalarField_call (Gyroid 1 0) (Scalar 0) (Scalar 0) (Scalar 0) = Inr (Scalar 0)"
    by (simp_all add: Gyroid_evaluate_Scalar SchwarzP_evaluate_Scalar Gyroid_def SchwarzP_def
        ScalarField_call_def times_float_def plus_float_def)
  have arrays: "Gyroid_evaluate 0 (Array xs) (Array ys) (Array zs) =
          Inr (Array (map (\<lambda>(x, y, z). sin x * cos y + sin y * cos z + sin z * cos x)
                        (zip xs (zip ys zs)))) \<and>
        SchwarzP_evaluate 0 (Array xs) (Array ys) (Array zs) =
          Inr (Array (map (\<lambda>(x, y, z). cos x + cos y + cos z) (zip xs (zip ys zs)))) \<and>
        ScalarField_call (Gyroid s 0) (Array xs) (Array ys) (Array zs) =
          Inr (Array (map (\<lambda>(x, y, z). sin (x * s) * cos (y * s) + sin (y * s) * cos (z * s) +
                                        sin (z * s) * cos (x * s))
                        (zip xs (zip ys zs)))) \<and>
        ScalarField_call (SchwarzP s 0) (Array xs) (Array ys) (Array zs) =
          Inr (Array (map (\<lambda>(x, y, z). cos (x * s) + cos (y * s) + cos (z * s))
                        (zip xs (zip ys zs))))"
    if "length ys = length xs" "length zs = length xs"
    using that
    by (simp add: Gyroid_evaluate_Array SchwarzP_evaluate_Array Gyroid_call_Array
        SchwarzP_call_Array)
  show ?thesis
    using scalars origin arrays by blast
qed

theorem tpms_base_formulas_witness:
  "length [0 :: real, 0] = length [0, pi / 2] \<and> length [0 :: real, 0] = length [0, pi]
   \<and> Gyroid_evaluate 0 (Array [0, pi / 2]) (Array [0, 0]) (Array [0, 0]) = Inr (Array [0, 1])
   \<and> SchwarzP_evaluate 0 (Array [0, pi / 2]) (Array [0, 0]) (Array [0, 0]) = Inr (Array [3, 2])
   \<and> ScalarField_call (SchwarzP (1 / 2) 0) (Array [0, pi]) (Array [0, 0]) (Array [0, 0]) =
       Inr (Array [3, 2])
   \<and> ScalarField_call (Gyroid (1 / 2) 0) (Array [0, pi]) (Array [0, 0]) (Array [0, 0]) =
       Inr (Array [0, 1])"
  using tpms_base_formulas [of 0 0 0 "[0, 0]" "[0, pi / 2]" "[0, 0]" 1]
    tpms_base_formulas [of 0 0 0 "[0, 0]" "[0, pi]" "[0, 0]" "1 / 2"]
  by simp

text \<open>
  Claim C7. For a thickness \<open>t > 0\<close>, \<open>evaluate\<close> of a Gyroid and of a SchwarzP field
  returns \<open>|f(x, y, z)| - t\<close> for the respective base formula \<open>f\<close>; with thickness 0 it
  returns \<open>f(x, y, z)\<close> unchanged. Both hold for float coordinates and, position by
  position, for coordinate arrays of one length.
\<close>

theorem tpms_thickness:
  "(0 < t \<longrightarrow>
      Gyroid_evaluate t (Scalar x) (Scalar y) (Scalar z) =
        Inr (Scalar (\<bar>sin x * cos y + sin y * cos z + sin z * cos x\<bar> - t)) \<and>
      SchwarzP_evaluate t (Scalar x) (Scalar y) (Scalar z) =
        Inr (Scalar (\<bar>cos x + cos y + cos z\<bar> - t)))
   \<and> (0 < t \<and> length ys = length xs \<and> length zs = length xs \<longrightarrow>
      Gyroid_evaluate t (Array xs) (Array ys) (Array zs) =
        Inr (Array (map (\<lambda>(x, y, z). \<bar>sin x * cos y + sin y * cos z + sin z * cos x\<bar> - t)
                      (zip xs (zip ys zs)))) \<and>
      SchwarzP_evaluate t (Array xs) (Array ys) (Array zs) =
        Inr (Array (map (\<lambda>(x, y, z). \<bar>cos x + cos y + cos z\<bar> - t) (zip xs (zip ys zs)))))
   \<and> Gyroid_evaluate 0 (Scalar x) (Scalar y) (Scalar z) =
        Inr (Scalar (sin x * cos y + sin y * cos z + sin z * cos x))
   \<and> SchwarzP_evaluate 0 (Scalar x) (Scalar y) (Scalar z) =
        Inr (Scalar (cos x + cos y + cos z))
   \<and> (length ys = length xs \<and> length zs = length xs \<longrightarrow>
      Gyroid_evaluate 0 (Array xs) (Array ys) (Array zs) =
        Inr (Array (map (\<lambda>(x, y, z). sin x * cos y + sin y * cos z + sin z * cos x)
                      (zip xs (zip ys zs)))) \<and>
      SchwarzP_evaluate 0 (Array xs) (Array ys) (Array zs) =
        Inr (Array (map (\<lambda>(x, y, z). cos x + cos y + cos z) (zip xs (zip ys zs)))))"
  by (simp add: Gyroid_evaluate_Scalar SchwarzP_evaluate_Scalar
      Gyroid_evaluate_Array_thickness SchwarzP_evaluate_Array_thickness)

theorem tpms_thickness_witness:
  "(0::real) < 1 / 2
   \<and> Gyroid_evaluate (1 / 2) (Scalar 0) (Scalar 0) (Scalar 0) = Inr (Scalar (- (1 / 2)))
   \<and> SchwarzP_evaluate (1 / 2) (Scalar 0) (Scalar 0) (Scalar 0) = Inr (Scalar (5 / 2))
   \<and> length [0 :: real, 0] = length [0, pi / 2]
   \<and> Gyroid_evaluate (1 / 2) (Array [0, pi / 2]) (Array [0, 0]) (Array [0, 0]) =
       Inr (Array [- (1 / 2), 1 / 2])
   \<and> SchwarzP_evaluate (1 / 2) (Array [0, pi / 2]) (Array [0, 0]) (Array [0, 0]) =
       Inr (Array [5 / 2, 3 / 2])
   \<and> Gyroid_evaluate 0 (Array [0, pi / 2]) (Array [0, 0]) (Array [0, 0]) = Inr (Array [0, 1])"
  using tpms_thickness [of "1 / 2" 0 0 0 "[0, 0]" "[0, pi / 2]" "[0, 0]"]
  by simp

section \<open>Properties of the analysis\<close>

lemma filter_snd_all_False: "filter snd (zip xs (map (\<lambda>v. False) ys)) = []"
  by (induction xs arbitrary: ys) (auto simp: zip_Cons1 split: list.splits)

lemma no_faces_no_bounds: "faces m = [] \<Longrightarrow> mesh_bounds m = None"
  by (simp add: mesh_bounds_def referenced_vertices_def face_indices_def filter_snd_all_False)

lemma analyze_geometry_None: "mesh_bounds m = None \<Longrightarrow> analyze_geometry m = Inl TypeError"
  by (simp add: analyze_geometry_def calculate_bounding_box_def and_then_def)

lemma length_edges_of_faces:
  "length (concat (map (\<lambda>(a, b, c). [(a, b), (b, c), (c, a)]) fs)) = 3 * length fs"
  by (induction fs) auto

lemma length_mesh_edges: "length (mesh_edges m) = 3 * length (faces m)"
  by (simp add: mesh_edges_def length_edges_of_faces)

lemma analyze_geometry_Some:
  assumes "mesh_bounds m = Some (lo, hi)"
  shows "\<exists>r. analyze_geometry m = Inr r \<and> volume r = calculate_volume m \<and>
             is_volume r = mesh_is_volume m \<and> is_watertight r = mesh_is_watertight m \<and>
             surface_area r = mesh_area m \<and> vertex_count r = length (vertices m) \<and>
             face_count r = length (faces m) \<and> edge_count r = 3 * length (faces m)"
proof -
  show ?thesis
    using assms length_mesh_edges [of m]
    by (cases lo; cases hi)
       (simp add: analyze_geometry_def calculate_bounding_box_def calculate_dimensions_def
          and_then_def)
qed

text \<open>What does not need the bounding box is zero on the empty mesh.\<close>

lemma empty_mesh_zero_parts:
  "calculate_volume Trimesh_empty = 0 \<and> mesh_area Trimesh_empty = 0 \<and>
   length (vertices Trimesh_empty) = 0 \<and> length (faces Trimesh_empty) = 0 \<and>
   length (mesh_edges Trimesh_empty) = 0 \<and> \<not> mesh_is_watertight Trimesh_empty \<and>
   \<not> mesh_is_volume Trimesh_empty"
  by (simp add: calculate_volume_def mesh_is_volume_def mesh_is_watertight_def mesh_is_empty_def
      mesh_area_def triangles_def mesh_edges_def Trimesh_empty_def)

lemma tetrahedron_facts:
  "mesh_ok tetrahedron" "mesh_is_volume tetrahedron" "mesh_volume tetrahedron = 1 / 6"
  "mesh_bounds tetrahedron = Some ((0, 0, 0), (1, 1, 1))"
  by (simp_all add: mesh_ok_def mesh_is_volume_def mesh_is_watertight_def
      mesh_is_winding_consistent_def mesh_is_empty_def tetrahedron_def edges_sorted_def
      mesh_edges_def mesh_volume_def triangles_def mesh_bounds_def referenced_vertices_def
      face_indices_def amin_def amax_def upt_rec)

lemma tetrahedron_inverted_facts:
  "mesh_ok tetrahedron_inverted" "mesh_is_watertight tetrahedron_inverted"
  "mesh_is_winding_consistent tetrahedron_inverted"
  "mesh_volume tetrahedron_inverted = - (1 / 6)"
  "mesh_bounds tetrahedron_inverted = Some ((0, 0, 0), (1, 1, 1))"
  by (simp_all add: mesh_ok_def mesh_is_watertight_def mesh_is_winding_consistent_def
      mesh_is_empty_def tetrahedron_inverted_def edges_sorted_def mesh_edges_def
      mesh_volume_def triangles_def mesh_bounds_def referenced_vertices_def face_indices_def
      amin_def amax_def upt_rec)

lemma single_triangle_facts:
  "mesh_ok single_triangle" "\<not> mesh_is_watertight single_triangle"
  "mesh_bounds single_triangle = Some ((0, 0, 0), (1, 1, 0))"
  by (simp_all add: mesh_ok_def mesh_is_watertight_def mesh_is_empty_def single_triangle_def
      edges_sorted_def mesh_edges_def mesh_bounds_def referenced_vertices_def face_indices_def
      amin_def amax_def upt_rec)

text \<open>
  The model of trimesh agrees with the package's tests on the box
  (\<open>tests/test_geometry.py\<close>): volume 8 for extents \<open>(2, 2, 2)\<close>, dimensions
  \<open>(2, 3, 4)\<close> and volume 24 for extents \<open>(2, 3, 4)\<close>, and a watertight mesh.
\<close>

lemma box_mesh_shape:
  "mesh_ok (box_mesh ex ey ez)" "mesh_is_watertight (box_mesh ex ey ez)"
  "mesh_is_winding_consistent (box_mesh ex ey ez)"
  by (simp_all add: mesh_ok_def face_indices_def mesh_is_watertight_def
      mesh_is_winding_consistent_def mesh_is_empty_def box_mesh_def edges_sorted_def
      mesh_edges_def)

lemma box_mesh_volume: "mesh_volume (box_mesh ex ey ez) = ex * ey * ez"
  by (simp add: mesh_volume_def triangles_def box_mesh_def algebra_simps)

lemma box_mesh_calculate_volume:
  "0 < ex * ey * ez \<Longrightarrow> calculate_volume (box_mesh ex ey ez) = ex * ey * ez"
  by (simp add: calculate_volume_def mesh_is_volume_def box_mesh_shape box_mesh_volume)

lemma box_mesh_bounds:
  "mesh_bounds (box_mesh 2 3 4) = Some ((- 1, - (3 / 2), - 2), (1, 3 / 2, 2))"
  by (simp add: mesh_bounds_def referenced_vertices_def face_indices_def box_mesh_def
      amin_def amax_def upt_rec)

lemma box_mesh_tests:
  "calculate_volume (box_mesh 2 2 2) = 8"
  "calculate_volume (box_mesh 2 3 4) = 24"
  "calculate_dimensions (box_mesh 2 3 4) = Inr \<lparr>width = 2, height = 3, depth = 4\<rparr>"
  "mesh_is_watertight (box_mesh 2 3 4)"
  by (simp_all add: box_mesh_calculate_volume box_mesh_shape calculate_dimensions_def
      calculate_bounding_box_def and_then_def box_mesh_bounds)

text \<open>
  Claim C3. On the empty mesh (no vertices, no faces) \<open>analyze_geometry\<close> is claimed to
  return all-zero metrics. It does not return: the empty mesh has no bounds,
  \<open>calculate_bounding_box\<close> subscripts \<open>None\<close>, and the TypeError leaves \<open>analyze_geometry\<close>.
\<close>

theorem analyze_geometry_empty_mesh_raises:
  "mesh_bounds Trimesh_empty = None
   \<and> calculate_bounding_box Trimesh_empty = Inl TypeError
   \<and> calculate_dimensions Trimesh_empty = Inl TypeError
   \<and> analyze_geometry Trimesh_empty = Inl TypeError"
  by (simp add: analyze_geometry_def calculate_dimensions_def calculate_bounding_box_def
      mesh_bounds_def Trimesh_empty_def referenced_vertices_def and_then_def)

text \<open>
  Claim C4, as stated, fails on a closed, consistently wound mesh whose faces point
  inwards: the inverted tetrahedron is watertight and consistently wound, its
  signed-tetrahedron volume is \<open>-1/6\<close>, and the reported volume is 0 with \<open>is_volume\<close> false.
\<close>

theorem inverted_tetrahedron_reported_volume:
  "mesh_is_watertight tetrahedron_inverted
   \<and> mesh_is_winding_consistent tetrahedron_inverted
   \<and> mesh_volume tetrahedron_inverted = - (1 / 6)
   \<and> calculate_volume tetrahedron_inverted = 0
   \<and> (case analyze_geometry tetrahedron_inverted of
         Inl e \<Rightarrow> None | Inr r \<Rightarrow> Some (volume r, is_volume r)) = Some (0, False)"
proof -
  have nv: "\<not> mesh_is_volume tetrahedron_inverted"
    by (simp add: mesh_is_volume_def tetrahedron_inverted_facts)
  then have cv: "calculate_volume tetrahedron_inverted = 0"
    by (simp add: calculate_volume_def)
  obtain r where "analyze_geometry tetrahedron_inverted = Inr r"
    "volume r = calculate_volume tetrahedron_inverted"
    "is_volume r = mesh_is_volume tetrahedron_inverted"
    using analyze_geometry_Some [OF tetrahedron_inverted_facts(5)] by blast
  then show ?thesis
    using nv cv by (simp add: tetrahedron_inverted_facts)
qed

text \<open>
  Claim C4, amended. For a mesh with face indices in range: if trimesh accepts it as a
  volume (watertight, consistently wound and of positive signed volume),
  \<open>calculate_volume\<close> returns its signed-tetrahedron volume; for every other mesh, so for
  every mesh that is not watertight or not consistently wound, it returns 0 without
  raising; and whenever the mesh has a bounding box, \<open>analyze_geometry\<close> reports that
  volume together with \<open>is_volume\<close> as trimesh gives it.
\<close>

theorem calculate_volume_of_valid_volume:
  assumes "mesh_ok m"
  shows "(mesh_is_volume m \<longrightarrow> calculate_volume m = mesh_volume m \<and> 0 < mesh_volume m)
   \<and> (\<not> mesh_is_volume m \<longrightarrow> calculate_volume m = 0)
   \<and> (\<not> (mesh_is_watertight m \<and> mesh_is_winding_consistent m) \<longrightarrow> calculate_volume m = 0)
   \<and> (mesh_bounds m \<noteq> None \<longrightarrow>
        (\<exists>r. analyze_geometry m = Inr r \<and> volume r = calculate_volume m \<and>
             is_volume r = mesh_is_volume m))"
proof -
  have "\<exists>r. analyze_geometry m = Inr r \<and> volume r = calculate_volume m \<and>
            is_volume r = mesh_is_volume m" if nb: "mesh_bounds m \<noteq> None"
  proof -
    obtain lo hi where "mesh_bounds m = Some (lo, hi)"
      using nb by (cases "mesh_bounds m") auto
    then show ?thesis
      using analyze_geometry_Some by blast
  qed
  then show ?thesis
    by (auto simp: calculate_volume_def mesh_is_volume_def)
qed

theorem calculate_volume_of_valid_volume_witness:
  "mesh_ok tetrahedron \<and> mesh_is_volume tetrahedron \<and> calculate_volume tetrahedron = 1 / 6
   \<and> mesh_bounds tetrahedron \<noteq> None
   \<and> (\<exists>r. analyze_geometry tetrahedron = Inr r \<and> volume r = 1 / 6 \<and> is_volume r)
   \<and> mesh_ok single_triangle \<and> \<not> mesh_is_watertight single_triangle
   \<and> \<not> mesh_is_volume single_triangle \<and> calculate_volume single_triangle = 0
   \<and> mesh_bounds single_triangle \<noteq> None
   \<and> (\<exists>r. analyze_geometry single_triangle = Inr r \<and> volume r = 0 \<and> \<not> is_volume r)"
proof -
  have nv: "\<not> mesh_is_volume single_triangle"
    by (simp add: mesh_is_volume_def single_triangle_facts)
  show ?thesis
    using calculate_volume_of_valid_volume [OF tetrahedron_facts(1)]
      calculate_volume_of_valid_volume [OF single_triangle_facts(1)] nv
    by (auto simp: tetrahedron_facts single_triangle_facts)
qed

text \<open>
  Claim C8. \<open>estimate_material_usage\<close>: with a wall thickness \<open>w > 0\<close> the material volume
  is the surface area times \<open>w\<close>; with no wall thickness, or one that is not positive, it
  is the solid volume of \<open>calculate_volume\<close>, which is 0 for a mesh that is not
  watertight; in every case the mass is the material volume divided by 1000 and
  multiplied by the density.
\<close>

theorem estimate_material_usage_mass:
  assumes "mesh_ok m"
  shows "(0 < w \<longrightarrow>
        material_volume_mm3 (estimate_material_usage m d (Some w)) = mesh_area m * w)
   \<and> (w \<le> 0 \<longrightarrow>
        material_volume_mm3 (estimate_material_usage m d (Some w)) = calculate_volume m)
   \<and> material_volume_mm3 (estimate_material_usage m d None) = calculate_volume m
   \<and> (\<not> mesh_is_watertight m \<longrightarrow> calculate_volume m = 0)
   \<and> mass_g (estimate_material_usage m d wt) =
        material_volume_mm3 (estimate_material_usage m d wt) / 1000 * d
   \<and> volume_mm3 (estimate_material_usage m d wt) = calculate_volume m
   \<and> density (estimate_material_usage m d wt) = d"
  by (simp add: estimate_material_usage_def calculate_volume_def mesh_is_volume_def Let_def)

theorem estimate_material_usage_mass_witness:
  "mesh_ok tetrahedron \<and> (0::real) < 3
   \<and> material_volume_mm3 (estimate_material_usage tetrahedron 2 (Some 3)) =
       mesh_area tetrahedron * 3
   \<and> mass_g (estimate_material_usage tetrahedron 2 (Some 3)) =
       mesh_area tetrahedron * 3 / 1000 * 2
   \<and> (0::real) \<le> 0
   \<and> material_volume_mm3 (estimate_material_usage tetrahedron 2 (Some 0)) = 1 / 6
   \<and> mass_g (estimate_material_usage tetrahedron 2 None) = 1 / 6 / 1000 * 2
   \<and> mesh_ok single_triangle \<and> \<not> mesh_is_watertight single_triangle
   \<and> mass_g (estimate_material_usage single_triangle 2 None) = 0"
proof -
  have cv: "calculate_volume tetrahedron = 1 / 6"
    by (simp add: calculate_volume_def tetrahedron_facts)
  show ?thesis
    using estimate_material_usage_mass [OF tetrahedron_facts(1), of 3 2 "Some 3"]
      estimate_material_usage_mass [OF tetrahedron_facts(1), of 0 2 None]
      estimate_material_usage_mass [OF single_triangle_facts(1), of 0 2 None]
      cv single_triangle_facts
    by (simp add: tetrahedron_facts)
qed

section \<open>Properties of \<open>generate_mesh\<close>\<close>

lemma length_concat_uniform:
  "(\<And>a. a \<in> set xs \<Longrightarrow> length (f a) = n) \<Longrightarrow> length (concat (map f xs)) = length xs * n"
  by (induction xs) auto

lemma meshgrid_arrays:
  "\<exists>xs ys zs. meshgrid x y z = (Array xs, Array ys, Array zs) \<and>
     length xs = length x * length y * length z \<and>
     length ys = length x * length y * length z \<and>
     length zs = length x * length y * length z"
  by (simp add: meshgrid_def length_concat_uniform mult.assoc)

lemma linspace_negative: "num < 0 \<Longrightarrow> linspace a b num = Inl ValueError"
  by (simp add: linspace_def)

lemma linspace_nonnegative:
  "0 \<le> num \<Longrightarrow> \<exists>xs. linspace a b num = Inr xs \<and> length xs = nat num"
  by (simp add: linspace_def)

lemma generate_mesh_first_call:
  assumes x: "linspace x_min x_max resolution = Inr x"
    and y: "linspace y_min y_max resolution = Inr y"
    and z: "linspace z_min z_max resolution = Inr z"
  shows "\<exists>calls r. generate_mesh env field resolution lev
            (Some ((x_min, x_max), (y_min, y_max), (z_min, z_max))) = (meshgrid x y z # calls, r)"
  by (simp add: generate_mesh_def x y z split: sum.splits prod.splits)

text \<open>
  Errors of the scikit-image path other than ImportError leave \<open>generate_mesh\<close>
  unhandled, after the field has been sampled once.
\<close>

lemma skimage_mesh_error:
  assumes "skimage_importable env" "resolution \<noteq> 1"
    and "marching_cubes env [''level'', ''spacing'', ''origin''] field_values resolution lev
           ((x_max - x_min) / real_of_int (resolution - 1),
            (y_max - y_min) / real_of_int (resolution - 1),
            (z_max - z_min) / real_of_int (resolution - 1))
           (x_min, y_min, z_min) = Inl e"
  shows "skimage_mesh env field_values resolution lev
           ((x_min, x_max), (y_min, y_max), (z_min, z_max)) = Inl e"
  using assms by (simp add: skimage_mesh_def truediv_def and_then_def)

lemma generate_mesh_error_propagates:
  assumes "linspace x_min x_max resolution = Inr x"
    and "linspace y_min y_max resolution = Inr y"
    and "linspace z_min z_max resolution = Inr z"
    and "ScalarField_call field (fst (meshgrid x y z)) (fst (snd (meshgrid x y z)))
           (snd (snd (meshgrid x y z))) = Inr field_values"
    and "skimage_mesh env field_values resolution lev
           ((x_min, x_max), (y_min, y_max), (z_min, z_max)) = Inl e"
    and "e \<noteq> ImportError"
  shows "generate_mesh env field resolution lev
           (Some ((x_min, x_max), (y_min, y_max), (z_min, z_max))) = ([meshgrid x y z], Inl e)"
  using assms by (simp add: generate_mesh_def)

text \<open>
  The library's own range check: with the keywords it accepts, a volume that is
  constantly 5 is rejected at level 0.
\<close>

lemma skimage_level_outside_range:
  "skimage_marching_cubes marching_cubes_parameters extract [''level'', ''spacing'']
     (Array (replicate 8 5)) 2 0 sp org = Inl ValueError"
  by (simp add: skimage_marching_cubes_def marching_cubes_parameters_def level_in_range_def
      amin_def amax_def eval_nat_numeral)

text \<open>
  The fallback path on a constant field: the standard deviation is 0, no grid point is
  near the surface, and the empty mesh is returned, whatever the level and the box.
\<close>

lemma np_std_constant: "np_std (map (\<lambda>v. c) xs) = 0"
  by (cases "xs = []") (simp_all add: np_std_def np_mean_def sum_list_triv o_def)

lemma constant_field_call:
  "ScalarField_call (constant_field c) (Array xs) Y Z = Inr (Array (map (\<lambda>v. c) xs))"
  by (simp add: ScalarField_call_def constant_field_def times_float_def plus_float_def o_def)

lemma near_surface_points_constant:
  assumes "length ys = length xs" "length zs = length xs"
  shows "near_surface_points (Array (map (\<lambda>v. c) xs)) lev (Array xs, Array ys, Array zs) = Inr []"
  using assms
  by (simp add: near_surface_points_def np_std_constant boolean_index_def and_then_def o_def
      filter_snd_all_False)

lemma clean_up_empty: "clean_up Trimesh_empty = Trimesh_empty"
  by (simp add: clean_up_def remove_unreferenced_vertices_def remove_duplicate_faces_def
      Trimesh_empty_def referenced_vertices_def)

lemma marching_cubes_simple_constant:
  assumes x: "linspace x_min x_max resolution = Inr x"
    and y: "linspace y_min y_max resolution = Inr y"
    and z: "linspace z_min z_max resolution = Inr z"
  shows "marching_cubes_simple env (constant_field c) resolution lev
           ((x_min, x_max), (y_min, y_max), (z_min, z_max)) = ([meshgrid x y z], Inr Trimesh_empty)"
proof -
  obtain xs ys zs where g: "meshgrid x y z = (Array xs, Array ys, Array zs)"
    and l: "length ys = length xs" "length zs = length xs"
    using meshgrid_arrays [of x y z] by auto
  have "near_surface_points (Array (map (\<lambda>v. c) xs)) lev (Array xs, Array ys, Array zs) = Inr []"
    using l by (rule near_surface_points_constant)
  then show ?thesis
    by (simp add: marching_cubes_simple_def x y z g constant_field_call)
qed

lemma generate_mesh_fallback_constant_field:
  assumes "\<not> skimage_importable env" "0 \<le> resolution"
  shows "snd (generate_mesh env (constant_field c) resolution lev b) = Inr Trimesh_empty"
proof -
  obtain x_min x_max y_min y_max z_min z_max
    where b: "(case b of None \<Rightarrow> ((-5, 5), (-5, 5), (-5, 5)) | Some b' \<Rightarrow> b') =
               ((x_min, x_max), (y_min, y_max), (z_min, z_max))"
    by (metis prod.collapse)
  obtain x where x: "linspace x_min x_max resolution = Inr x"
    using linspace_nonnegative [OF assms(2)] by blast
  obtain y where y: "linspace y_min y_max resolution = Inr y"
    using linspace_nonnegative [OF assms(2)] by blast
  obtain z where z: "linspace z_min z_max resolution = Inr z"
    using linspace_nonnegative [OF assms(2)] by blast
  obtain xs ys zs where g: "meshgrid x y z = (Array xs, Array ys, Array zs)"
    using meshgrid_arrays [of x y z] by auto
  show ?thesis
    using assms(1)
    by (simp add: generate_mesh_def b x y z g constant_field_call skimage_mesh_def
        marching_cubes_simple_constant [OF x y z, unfolded g] clean_up_empty)
qed

text \<open>
  With the libraries as installed, neither path produces a surface: the scikit-image
  path raises for every input, and the fallback path returns nothing but the empty mesh,
  because the subscript \<open>mesh[...]\<close> raises inside the bare \<open>except\<close>.
\<close>

lemma skimage_mesh_installed:
  "skimage_mesh (installed True) fv resolution lev b =
     Inl (if resolution = 1 then ZeroDivisionError else TypeError)"
  by (cases b)
     (auto simp: skimage_mesh_def installed_def truediv_def and_then_def
        skimage_marching_cubes_def marching_cubes_parameters_def)

lemma generate_mesh_skimage_installed:
  "snd (generate_mesh (installed True) field resolution lev b) \<noteq> Inr m"
  by (auto simp: generate_mesh_def skimage_mesh_installed split: prod.splits sum.splits)

lemma delaunay_mesh_installed: "delaunay_mesh (installed w) points \<noteq> Inr m"
  by (cases "Delaunay (installed w) points";
      cases "Trimesh_init (installed w) points (projr (Delaunay (installed w) points)) None")
     (auto simp: delaunay_mesh_def and_then_def installed_def)

lemma marching_cubes_simple_installed:
  "marching_cubes_simple (installed w) field resolution lev b = (calls, Inr m) \<Longrightarrow>
   m = Trimesh_empty"
  by (auto simp: marching_cubes_simple_def delaunay_mesh_installed
      split: prod.splits sum.splits if_splits)

lemma generate_mesh_fallback_installed:
  assumes "snd (generate_mesh (installed False) field resolution lev b) = Inr m"
  shows "m = Trimesh_empty"
proof -
  have "skimage_mesh (installed False) fv resolution lev bb = Inl ImportError" for fv bb
    by (cases bb) (auto simp: skimage_mesh_def installed_def)
  then show ?thesis
    using assms
    by (auto simp: generate_mesh_def clean_up_empty split: prod.splits sum.splits if_splits
        dest: marching_cubes_simple_installed)
qed

text \<open>
  Claim C1. Extraction is claimed never to raise, and to return the empty mesh for a
  field that does not cross the iso-value. With scikit-image importable, the constant
  field 5 at iso-value 0 and resolution 2 makes \<open>generate_mesh\<close> raise, since only
  ImportError is caught: the call of \<open>measure.marching_cubes\<close> fails with TypeError for the
  keyword \<open>origin\<close>, which is not a parameter; and whatever parameter names the function
  had, with \<open>origin\<close> among them it would fail with ValueError, the level 0 being outside
  the range of the sampled values. The fallback path does return the empty mesh
  (\<open>generate_mesh_fallback_constant_field\<close>).
\<close>

theorem generate_mesh_constant_field_raises:
  "snd (generate_mesh (installed True) (constant_field 5) 2 0 None) = Inl TypeError
   \<and> snd (generate_mesh
            ((installed True)\<lparr>marching_cubes := skimage_marching_cubes parameters extract\<rparr>)
            (constant_field 5) 2 0 None) =
       Inl (if list_all (\<lambda>k. k \<in> set parameters) [''level'', ''spacing'', ''origin'']
            then ValueError else TypeError)"
  by (simp add: generate_mesh_def linspace_def upt_rec meshgrid_def constant_field_call
      skimage_mesh_def installed_def truediv_def and_then_def skimage_marching_cubes_def
      marching_cubes_parameters_def level_in_range_def amin_def amax_def)

text \<open>
  Claim C2, as stated, fails: no path raises before sampling for a resolution below 2 or
  a box with \<open>min \<ge> max\<close>. With resolution 1 the field is sampled at the single grid
  point; then the scikit-image path raises ZeroDivisionError from the spacing, and the
  fallback path returns the empty mesh. With a box whose axes have \<open>min \<ge> max\<close> the
  fallback path samples and returns the empty mesh as well.
\<close>

theorem generate_mesh_resolution_one:
  "generate_mesh (installed True) (constant_field 5) 1 0 None =
     ([(Array [- 5], Array [- 5], Array [- 5])], Inl ZeroDivisionError)
   \<and> generate_mesh (installed False) (constant_field 5) 1 0 None =
     ([(Array [- 5], Array [- 5], Array [- 5]), (Array [- 5], Array [- 5], Array [- 5])],
      Inr Trimesh_empty)
   \<and> fst (generate_mesh (installed False) (constant_field 5) 2 0 (Some ((1, 1), (2, 1), (0, 0))))
       \<noteq> []
   \<and> snd (generate_mesh (installed False) (constant_field 5) 2 0 (Some ((1, 1), (2, 1), (0, 0))))
       = Inr Trimesh_empty"
proof -
  have l: "linspace (- 5) 5 1 = Inr [- 5]"
    by (simp add: linspace_def)
  have g: "meshgrid [- 5] [- 5] [- 5] = (Array [- 5], Array [- 5], Array [- 5])"
    by (simp add: meshgrid_def)
  have 1: "generate_mesh (installed True) (constant_field 5) 1 0 None =
     ([(Array [- 5], Array [- 5], Array [- 5])], Inl ZeroDivisionError)"
    by (simp add: generate_mesh_def l g constant_field_call skimage_mesh_def installed_def
        truediv_def and_then_def)
  have 2: "generate_mesh (installed False) (constant_field 5) 1 0 None =
     ([(Array [- 5], Array [- 5], Array [- 5]), (Array [- 5], Array [- 5], Array [- 5])],
      Inr Trimesh_empty)"
    using marching_cubes_simple_constant [OF l l l, of "installed False" 5 0]
    by (simp add: generate_mesh_def l g constant_field_call skimage_mesh_def installed_def
        clean_up_empty)
  have 3: "fst (generate_mesh (installed False) (constant_field 5) 2 0
            (Some ((1, 1), (2, 1), (0, 0)))) \<noteq> []"
    by (simp add: generate_mesh_def linspace_def split: sum.splits prod.splits)
  have 4: "snd (generate_mesh (installed False) (constant_field 5) 2 0
            (Some ((1, 1), (2, 1), (0, 0)))) = Inr Trimesh_empty"
    by (rule generate_mesh_fallback_constant_field) (simp_all add: installed_def)
  show ?thesis
    using 1 2 3 4 by blast
qed

text \<open>
  Claim C2, amended. \<open>generate_mesh\<close> does not validate the resolution or the box. A
  negative resolution is rejected by \<open>np.linspace\<close> with ValueError before the field is
  called. For every resolution \<open>n \<ge> 0\<close>, 0 and 1 included, and every box, also one
  with \<open>min \<ge> max\<close> on an axis, the three axes are built and the field is called on
  their meshgrid of \<open>n\<^sup>3\<close> points before anything else can fail. (A call without
  bounds is the call with the default box, see C10.)
\<close>

theorem generate_mesh_samples_without_validation:
  "(resolution < 0 \<longrightarrow>
      generate_mesh env field resolution lev
        (Some ((x_min, x_max), (y_min, y_max), (z_min, z_max))) = ([], Inl ValueError))
   \<and> (0 \<le> resolution \<longrightarrow>
      (\<exists>x y z xs ys zs calls r.
          linspace x_min x_max resolution = Inr x \<and>
          linspace y_min y_max resolution = Inr y \<and>
          linspace z_min z_max resolution = Inr z \<and>
          meshgrid x y z = (Array xs, Array ys, Array zs) \<and>
          length xs = nat resolution ^ 3 \<and>
          generate_mesh env field resolution lev
            (Some ((x_min, x_max), (y_min, y_max), (z_min, z_max))) =
          (meshgrid x y z # calls, r)))"
proof (intro conjI impI)
  assume "resolution < 0"
  then show "generate_mesh env field resolution lev
        (Some ((x_min, x_max), (y_min, y_max), (z_min, z_max))) = ([], Inl ValueError)"
    by (simp add: generate_mesh_def linspace_negative)
next
  assume n: "0 \<le> resolution"
  obtain x where x: "linspace x_min x_max resolution = Inr x" "length x = nat resolution"
    using linspace_nonnegative [OF n] by blast
  obtain y where y: "linspace y_min y_max resolution = Inr y" "length y = nat resolution"
    using linspace_nonnegative [OF n] by blast
  obtain z where z: "linspace z_min z_max resolution = Inr z" "length z = nat resolution"
    using linspace_nonnegative [OF n] by blast
  obtain xs ys zs where g: "meshgrid x y z = (Array xs, Array ys, Array zs)"
    and l: "length xs = length x * length y * length z"
    using meshgrid_arrays [of x y z] by blast
  have l3: "length xs = nat resolution ^ 3"
    using l x(2) y(2) z(2) by (simp add: power3_eq_cube)
  obtain calls r where "generate_mesh env field resolution lev
            (Some ((x_min, x_max), (y_min, y_max), (z_min, z_max))) = (meshgrid x y z # calls, r)"
    using generate_mesh_first_call [OF x(1) y(1) z(1)] by blast
  with x(1) y(1) z(1) g l3
  show "\<exists>x y z xs ys zs calls r.
          linspace x_min x_max resolution = Inr x \<and>
          linspace y_min y_max resolution = Inr y \<and>
          linspace z_min z_max resolution = Inr z \<and>
          meshgrid x y z = (Array xs, Array ys, Array zs) \<and>
          length xs = nat resolution ^ 3 \<and>
          generate_mesh env field resolution lev
            (Some ((x_min, x_max), (y_min, y_max), (z_min, z_max))) =
          (meshgrid x y z # calls, r)"
    by blast
qed

theorem generate_mesh_samples_without_validation_witness:
  "(- 1 :: int) < 0
   \<and> generate_mesh (installed True) (constant_field 5) (- 1) 0
        (Some ((- 5, 5), (- 5, 5), (- 5, 5))) = ([], Inl ValueError)
   \<and> (0 :: int) \<le> 1
   \<and> (\<exists>calls r. generate_mesh (installed True) (constant_field 5) 1 0
                    (Some ((- 5, 5), (- 5, 5), (- 5, 5))) =
                  ((Array [- 5], Array [- 5], Array [- 5]) # calls, r))"
proof -
  have l: "linspace (- 5) 5 1 = Inr [- 5]"
    by (simp add: linspace_def)
  have g: "meshgrid [- 5] [- 5] [- 5] = (Array [- 5], Array [- 5], Array [- 5])"
    by (simp add: meshgrid_def)
  show ?thesis
    using generate_mesh_samples_without_validation
            [of "- 1" "installed True" "constant_field 5" 0 "- 5" 5 "- 5" 5 "- 5" 5]
          generate_mesh_samples_without_validation
            [of 1 "installed True" "constant_field 5" 0 "- 5" 5 "- 5" 5 "- 5" 5]
    by (auto simp: l g)
qed

text \<open>
  Claim C10. Without a \<open>bounds\<close> argument the box \<open>((-5, 5), (-5, 5), (-5, 5))\<close> is
  used. For every field, resolution, iso-value and behaviour of the libraries, the
  result, field calls included, is that of the call with this box passed explicitly;
  the field is sampled on the meshgrid of \<open>linspace(-5, 5, n)\<close> on each axis; the
  scikit-image path hands \<open>measure.marching_cubes\<close> the spacing \<open>10 / (n - 1)\<close> and the
  origin \<open>(-5, -5, -5)\<close>; and the fallback path is run on this box.
\<close>

theorem generate_mesh_default_bounds:
  "generate_mesh env field resolution lev None =
     generate_mesh env field resolution lev (Some ((- 5, 5), (- 5, 5), (- 5, 5)))
   \<and> (0 \<le> resolution \<longrightarrow>
        (\<exists>x calls r. linspace (- 5) 5 resolution = Inr x \<and> length x = nat resolution \<and>
           generate_mesh env field resolution lev None = (meshgrid x x x # calls, r)))
   \<and> (skimage_importable env \<and> resolution \<noteq> 1 \<and> linspace (- 5) 5 resolution = Inr x \<and>
       ScalarField_call field (fst (meshgrid x x x)) (fst (snd (meshgrid x x x)))
         (snd (snd (meshgrid x x x))) = Inr field_values \<and>
       marching_cubes env [''level'', ''spacing'', ''origin''] field_values resolution lev
         (10 / real_of_int (resolution - 1), 10 / real_of_int (resolution - 1),
          10 / real_of_int (resolution - 1))
         (- 5, - 5, - 5) = Inl e \<and>
       e \<noteq> ImportError \<longrightarrow>
       generate_mesh env field resolution lev None = ([meshgrid x x x], Inl e))
   \<and> (\<not> skimage_importable env \<and> linspace (- 5) 5 resolution = Inr x \<and>
       ScalarField_call field (fst (meshgrid x x x)) (fst (snd (meshgrid x x x)))
         (snd (snd (meshgrid x x x))) = Inr field_values \<and>
       marching_cubes_simple env field resolution lev ((- 5, 5), (- 5, 5), (- 5, 5)) =
         (calls, Inr mesh) \<longrightarrow>
       generate_mesh env field resolution lev None = (meshgrid x x x # calls, Inr (clean_up mesh)))"
proof (intro conjI impI)
  show "generate_mesh env field resolution lev None =
     generate_mesh env field resolution lev (Some ((- 5, 5), (- 5, 5), (- 5, 5)))"
    by (simp add: generate_mesh_def)
next
  assume n: "0 \<le> resolution"
  obtain x where x: "linspace (- 5) 5 resolution = Inr x" "length x = nat resolution"
    using linspace_nonnegative [OF n] by blast
  have "\<exists>calls r. generate_mesh env field resolution lev None = (meshgrid x x x # calls, r)"
    by (simp add: generate_mesh_def x(1) split: sum.splits prod.splits)
  with x show "\<exists>x calls r. linspace (- 5) 5 resolution = Inr x \<and> length x = nat resolution \<and>
           generate_mesh env field resolution lev None = (meshgrid x x x # calls, r)"
    by blast
next
  assume a: "skimage_importable env \<and> resolution \<noteq> 1 \<and> linspace (- 5) 5 resolution = Inr x \<and>
       ScalarField_call field (fst (meshgrid x x x)) (fst (snd (meshgrid x x x)))
         (snd (snd (meshgrid x x x))) = Inr field_values \<and>
       marching_cubes env [''level'', ''spacing'', ''origin''] field_values resolution lev
         (10 / real_of_int (resolution - 1), 10 / real_of_int (resolution - 1),
          10 / real_of_int (resolution - 1))
         (- 5, - 5, - 5) = Inl e \<and>
       e \<noteq> ImportError"
  then have "skimage_mesh env field_values resolution lev ((- 5, 5), (- 5, 5), (- 5, 5)) = Inl e"
    by (simp add: skimage_mesh_def truediv_def and_then_def)
  with a show "generate_mesh env field resolution lev None = ([meshgrid x x x], Inl e)"
    by (simp add: generate_mesh_def)
next
  assume a: "\<not> skimage_importable env \<and> linspace (- 5) 5 resolution = Inr x \<and>
       ScalarField_call field (fst (meshgrid x x x)) (fst (snd (meshgrid x x x)))
         (snd (snd (meshgrid x x x))) = Inr field_values \<and>
       marching_cubes_simple env field resolution lev ((- 5, 5), (- 5, 5), (- 5, 5)) =
         (calls, Inr mesh)"
  then have "skimage_mesh env field_values resolution lev ((- 5, 5), (- 5, 5), (- 5, 5)) =
      Inl ImportError"
    by (simp add: skimage_mesh_def)
  with a show "generate_mesh env field resolution lev None =
      (meshgrid x x x # calls, Inr (clean_up mesh))"
    by (simp add: generate_mesh_def)
qed

theorem generate_mesh_default_bounds_witness:
  "(0 :: int) \<le> 2
   \<and> linspace (- 5) 5 2 = Inr [- 5, 5]
   \<and> (\<exists>calls r. generate_mesh (installed True) (constant_field 5) 2 0 None =
         (meshgrid [- 5, 5] [- 5, 5] [- 5, 5] # calls, r))
   \<and> skimage_importable (installed True) \<and> (2 :: int) \<noteq> 1
   \<and> marching_cubes (installed True) [''level'', ''spacing'', ''origin'']
        (Array (replicate 8 5)) 2 0 (10, 10, 10) (- 5, - 5, - 5) = Inl TypeError
   \<and> generate_mesh (installed True) (constant_field 5) 2 0 None =
        ([meshgrid [- 5, 5] [- 5, 5] [- 5, 5]], Inl TypeError)
   \<and> \<not> skimage_importable (installed False)
   \<and> marching_cubes_simple (installed False) (constant_field 5) 2 0
        ((- 5, 5), (- 5, 5), (- 5, 5)) = ([meshgrid [- 5, 5] [- 5, 5] [- 5, 5]], Inr Trimesh_empty)
   \<and> generate_mesh (installed False) (constant_field 5) 2 0 None =
        ([meshgrid [- 5, 5] [- 5, 5] [- 5, 5], meshgrid [- 5, 5] [- 5, 5] [- 5, 5]],
         Inr Trimesh_empty)"
proof -
  have l: "linspace (- 5) 5 2 = Inr [- 5, 5]"
    by (simp add: linspace_def upt_rec)
  have g: "meshgrid [- 5, 5] [- 5, 5] [- 5, 5] =
      (Array [- 5, - 5, - 5, - 5, 5, 5, 5, 5], Array [- 5, - 5, 5, 5, - 5, - 5, 5, 5],
       Array [- 5, 5, - 5, 5, - 5, 5, - 5, 5])"
    by (simp add: meshgrid_def)
  have c: "ScalarField_call (constant_field 5) (fst (meshgrid [- 5, 5] [- 5, 5] [- 5, 5]))
      (fst (snd (meshgrid [- 5, 5] [- 5, 5] [- 5, 5])))
      (snd (snd (meshgrid [- 5, 5] [- 5, 5] [- 5, 5]))) = Inr (Array (replicate 8 5))"
    by (simp add: g constant_field_call eval_nat_numeral)
  have m: "marching_cubes (installed True) [''level'', ''spacing'', ''origin'']
        (Array (replicate 8 5)) 2 0 (10, 10, 10) (- 5, - 5, - 5) = Inl TypeError"
    by (simp add: installed_def skimage_marching_cubes_def marching_cubes_parameters_def)
  have s: "marching_cubes_simple (installed False) (constant_field 5) 2 0
        ((- 5, 5), (- 5, 5), (- 5, 5)) = ([meshgrid [- 5, 5] [- 5, 5] [- 5, 5]], Inr Trimesh_empty)"
    by (rule marching_cubes_simple_constant [OF l l l])
  have i: "skimage_importable (installed True)" "\<not> skimage_importable (installed False)"
    by (simp_all add: installed_def)
  have t: "generate_mesh (installed True) (constant_field 5) 2 0 None =
        ([meshgrid [- 5, 5] [- 5, 5] [- 5, 5]], Inl TypeError)"
    using generate_mesh_default_bounds
            [of "installed True" "constant_field 5" 2 0 "[- 5, 5]" "Array (replicate 8 5)"
                TypeError "[meshgrid [- 5, 5] [- 5, 5] [- 5, 5]]" Trimesh_empty,
              THEN conjunct2]
          l c m i(1)
    by simp
  have f: "generate_mesh (installed False) (constant_field 5) 2 0 None =
        ([meshgrid [- 5, 5] [- 5, 5] [- 5, 5], meshgrid [- 5, 5] [- 5, 5] [- 5, 5]],
         Inr Trimesh_empty)"
    using generate_mesh_default_bounds
            [of "installed False" "constant_field 5" 2 0 "[- 5, 5]" "Array (replicate 8 5)"
                TypeError "[meshgrid [- 5, 5] [- 5, 5] [- 5, 5]]" Trimesh_empty,
              THEN conjunct2]
          l c s i(2) clean_up_empty
    by simp
  have e: "\<exists>calls r. generate_mesh (installed True) (constant_field 5) 2 0 None =
         (meshgrid [- 5, 5] [- 5, 5] [- 5, 5] # calls, r)"
    using t by simp
  show ?thesis
    using l m s i t f e by simp
qed

end
